theory Spec2Isabelle
  imports Complex_Main "HOL-Library.AList" "HOL-Library.Sublist"
begin

section \<open>Deserialised JSON and the Python operations the client applies to it\<close>

text \<open>
  The client works on what \<^verbatim>\<open>response.json()\<close> returns: \<^verbatim>\<open>None\<close>, Booleans, integers,
  strings, lists and dictionaries with string keys. A dictionary is an association list
  whose first binding of a key is the dictionary's entry. Numbers are the integers:
  a Python \<^verbatim>\<open>float\<close> is not a value of the model (no operation of the client but the
  division of \<^verbatim>\<open>estimateArrive\<close> would look into one).
\<close>

datatype json =
    JNull
  | JBool bool
  | JInt int
  | JStr string
  | JList "json list"
  | JDict "(string \<times> json) list"

text \<open>The exceptions the code can raise; \<open>ValueError\<close> carries its message.\<close>

datatype py_error =
    KeyError
  | IndexError
  | TypeError
  | AttributeError
  | ValueError string
  | HTTPError

text \<open>Sequencing of two computations that may raise: the first exception wins.\<close>

definition and_then :: "py_error + 'a \<Rightarrow> ('a \<Rightarrow> py_error + 'b) \<Rightarrow> py_error + 'b" where
  "and_then m f = (case m of Inl e \<Rightarrow> Inl e | Inr v \<Rightarrow> f v)"

text \<open>\<^verbatim>\<open>x.get(key, default)\<close>: only a dictionary has the method.\<close>

definition py_get_default :: "json \<Rightarrow> string \<Rightarrow> json \<Rightarrow> py_error + json" where
  "py_get_default x key dflt =
     (case x of
        JDict d \<Rightarrow> Inr (case map_of d key of None \<Rightarrow> dflt | Some v \<Rightarrow> v)
      | _ \<Rightarrow> Inl AttributeError)"

text \<open>\<^verbatim>\<open>x.get(key)\<close>: the default is \<^verbatim>\<open>None\<close>.\<close>

definition py_get :: "json \<Rightarrow> string \<Rightarrow> py_error + json" where
  "py_get x key = py_get_default x key JNull"

text \<open>
  \<^verbatim>\<open>x[key]\<close> with a string key: a missing key of a dictionary is a \<^verbatim>\<open>KeyError\<close>; a list
  or a string refuses a string index and the other values are not subscriptable, both
  with a \<^verbatim>\<open>TypeError\<close>.
\<close>

definition py_item :: "json \<Rightarrow> string \<Rightarrow> py_error + json" where
  "py_item x key =
     (case x of
        JDict d \<Rightarrow> (case map_of d key of None \<Rightarrow> Inl KeyError | Some v \<Rightarrow> Inr v)
      | _ \<Rightarrow> Inl TypeError)"

text \<open>
  \<^verbatim>\<open>x[0]\<close>: the first element of a list or the first character of a string
  (\<^verbatim>\<open>IndexError\<close> when empty); a dictionary has string keys only, so \<^verbatim>\<open>0\<close> is a
  missing key.
\<close>

definition py_first :: "json \<Rightarrow> py_error + json" where
  "py_first x =
     (case x of
        JList xs \<Rightarrow> (case xs of [] \<Rightarrow> Inl IndexError | y # _ \<Rightarrow> Inr y)
      | JStr s \<Rightarrow> (case s of [] \<Rightarrow> Inl IndexError | c # _ \<Rightarrow> Inr (JStr [c]))
      | JDict d \<Rightarrow> Inl KeyError
      | _ \<Rightarrow> Inl TypeError)"

text \<open>
  \<^verbatim>\<open>for y in x\<close>: the elements of a list, the keys of a dictionary, the characters of
  a string; nothing else is iterable.
\<close>

definition py_iter :: "json \<Rightarrow> py_error + json list" where
  "py_iter x =
     (case x of
        JList xs \<Rightarrow> Inr xs
      | JDict d \<Rightarrow> Inr (map JStr (remdups (map fst d)))
      | JStr s \<Rightarrow> Inr (map (\<lambda>c. JStr [c]) s)
      | _ \<Rightarrow> Inl TypeError)"

text \<open>
  \<^verbatim>\<open>s in x\<close> for a string \<open>s\<close>: a substring test on a string, membership in a list,
  a key test on a dictionary, a \<^verbatim>\<open>TypeError\<close> on the rest (\<^verbatim>\<open>None\<close> among them).
\<close>

definition py_in :: "string \<Rightarrow> json \<Rightarrow> py_error + bool" where
  "py_in s x =
     (case x of
        JStr t \<Rightarrow> Inr (sublist s t)
      | JList xs \<Rightarrow> Inr (JStr s \<in> set xs)
      | JDict d \<Rightarrow> Inr (s \<in> fst ` set d)
      | _ \<Rightarrow> Inl TypeError)"

text \<open>A list or a dictionary cannot be the key of a dictionary.\<close>

definition hashable :: "json \<Rightarrow> bool" where
  "hashable x = (case x of JList _ \<Rightarrow> False | JDict _ \<Rightarrow> False | _ \<Rightarrow> True)"

section \<open>The snapshot\<close>

text \<open>
  The dictionary the parsers build for one line. \<open>max_freq\<close> and \<open>min_freq\<close> are
  integers, or \<^verbatim>\<open>None\<close> in the placeholder of an unknown line; \<open>distance\<close> holds the
  server's \<^verbatim>\<open>DistanceBus\<close> values as they came, \<open>arrivals\<close> minutes or \<^verbatim>\<open>None\<close>.
\<close>

record line_info =
  destination :: json
  origin :: json
  max_freq :: "int option"
  min_freq :: "int option"
  start_time :: json
  end_time :: json
  day_type :: json
  distance :: "json list"
  arrivals :: "int option list"

text \<open>
  The stop's dictionary. \<^verbatim>\<open>parser.py\<close> names its first four keys \<^verbatim>\<open>stop_id\<close>,
  \<^verbatim>\<open>stop_name\<close>, \<^verbatim>\<open>stop_coordinates\<close> and \<^verbatim>\<open>stop_address\<close>; the class \<^verbatim>\<open>APIEMT\<close> names
  them with the prefix \<^verbatim>\<open>bus_\<close>. \<open>lines\<close> is a dictionary in insertion order, keyed by
  the line's label; keys are compared as JSON values (Python would also take
  \<^verbatim>\<open>True\<close> and \<^verbatim>\<open>1\<close>, and \<^verbatim>\<open>False\<close> and \<^verbatim>\<open>0\<close>, for one key).
\<close>

record stop_info =
  stop_id :: json
  stop_name :: json
  stop_coordinates :: json
  stop_address :: json
  lines :: "(json \<times> line_info) list"

section \<open>Parsing the lines of a stop\<close>

text \<open>
  The body of the loop of \<^verbatim>\<open>parse_lines\<close> (and of \<^verbatim>\<open>APIEMT._parse_lines\<close>, which has
  the same text), in Python's order of evaluation: the label, then for each entry of the
  new dictionary its condition before the branch taken. \<open>py_int\<close> is Python's
  \<^verbatim>\<open>int()\<close>, a parameter of the model.
\<close>

definition parse_line :: "(json \<Rightarrow> py_error + int) \<Rightarrow> json \<Rightarrow> py_error + (json \<times> line_info)" where
  "parse_line py_int line =
     and_then (py_item line ''label'') (\<lambda>line_number.
     and_then (py_item line ''direction'') (\<lambda>direction.
     and_then (if direction = JStr ''A'' then py_item line ''headerA''
               else py_item line ''headerB'') (\<lambda>dest.
     and_then (py_item line ''direction'') (\<lambda>direction'.
     and_then (if direction' = JStr ''B'' then py_item line ''headerA''
               else py_item line ''headerB'') (\<lambda>orig.
     and_then (and_then (py_item line ''maxFreq'') py_int) (\<lambda>maxf.
     and_then (and_then (py_item line ''minFreq'') py_int) (\<lambda>minf.
     and_then (py_item line ''startTime'') (\<lambda>start.
     and_then (py_item line ''stopTime'') (\<lambda>stop.
     and_then (py_item line ''dayType'') (\<lambda>day.
       Inr (line_number,
            \<lparr>destination = dest, origin = orig, max_freq = Some maxf, min_freq = Some minf,
             start_time = start, end_time = stop, day_type = day,
             distance = [], arrivals = []\<rparr>)))))))))))"

text \<open>
  The loop: each record's dictionary is stored under its label, replacing an earlier
  record of the same label; an unhashable label raises when it is stored.
\<close>

fun parse_lines_loop ::
  "(json \<Rightarrow> py_error + int) \<Rightarrow> json list \<Rightarrow> (json \<times> line_info) list
     \<Rightarrow> py_error + (json \<times> line_info) list" where
  "parse_lines_loop py_int [] acc = Inr acc"
| "parse_lines_loop py_int (line # rest) acc =
     (case parse_line py_int line of
        Inl e \<Rightarrow> Inl e
      | Inr (line_number, info) \<Rightarrow>
          if hashable line_number
          then parse_lines_loop py_int rest (AList.update line_number info acc)
          else Inl TypeError)"

definition parse_lines :: "(json \<Rightarrow> py_error + int) \<Rightarrow> json \<Rightarrow> py_error + (json \<times> line_info) list" where
  "parse_lines py_int ls = and_then (py_iter ls) (\<lambda>records. parse_lines_loop py_int records [])"

text \<open>\<^verbatim>\<open>APIEMT._parse_lines\<close> repeats \<^verbatim>\<open>parse_lines\<close> line by line.\<close>

definition APIEMT_parse_lines :: "(json \<Rightarrow> py_error + int) \<Rightarrow> json \<Rightarrow> py_error + (json \<times> line_info) list" where
  "APIEMT_parse_lines = parse_lines"

section \<open>What a call does besides returning\<close>

datatype log_record = Warning string | Error string

text \<open>
  A call returns a value or raises (\<open>outcome\<close>), leaves the object it mutates in a state
  (\<open>state\<close>: the dictionary passed to a parser, or \<^verbatim>\<open>self\<close>) and logs (\<open>logged\<close>). The
  result of a function is modelled by value: that a returned dictionary or list is the
  stored object itself shows in \<open>state\<close>.
\<close>

record ('a, 's) run =
  outcome :: "py_error + 'a"
  state :: 's
  logged :: "log_record list"

text \<open>
  What the functions of \<^verbatim>\<open>parser.py\<close> return: the updated dictionary, \<^verbatim>\<open>None\<close>, or
  the dictionary \<^verbatim>\<open>{"error": message}\<close>.
\<close>

datatype parsed = Returned_stop_info stop_info | Returned_None | Returned_error string

section \<open>parser.py\<close>

definition parse_token :: "json \<Rightarrow> (json, unit) run" where
  "parse_token response =
     (case py_get response ''code'' of
        Inl e \<Rightarrow> \<lparr>outcome = Inl e, state = (), logged = []\<rparr>
      | Inr code \<Rightarrow>
          if code = JStr ''01''
          then \<lparr>outcome = and_then (py_item response ''data'') (\<lambda>data.
                           and_then (py_first data) (\<lambda>entry. py_get entry ''accessToken'')),
                state = (), logged = []\<rparr>
          else \<lparr>outcome = Inr JNull, state = (),
                logged = [Warning ''Invalid login credentials'']\<rparr>)"

text \<open>\<^verbatim>\<open>response["data"][0]["stops"][0]\<close>\<close>

definition first_stop :: "json \<Rightarrow> py_error + json" where
  "first_stop response =
     and_then (py_item response ''data'') (\<lambda>data.
     and_then (py_first data) (\<lambda>entry.
     and_then (py_item entry ''stops'') py_first))"

text \<open>
  The dictionary \<^verbatim>\<open>parse_stop_info\<close> builds before it updates \<^verbatim>\<open>stop_info\<close> with it:
  an exception leaves \<^verbatim>\<open>stop_info\<close> as it was.
\<close>

definition stop_update :: "(json \<Rightarrow> py_error + int) \<Rightarrow> json \<Rightarrow> py_error + stop_info" where
  "stop_update py_int response =
     and_then (first_stop response) (\<lambda>response_stop.
     and_then (py_item response_stop ''stop'') (\<lambda>sid.
     and_then (py_item response_stop ''name'') (\<lambda>name.
     and_then (and_then (py_item response_stop ''geometry'')
                 (\<lambda>geometry. py_item geometry ''coordinates'')) (\<lambda>coordinates.
     and_then (py_item response_stop ''postalAddress'') (\<lambda>address.
     and_then (and_then (py_item response_stop ''dataLine'') (parse_lines py_int)) (\<lambda>ls.
       Inr \<lparr>stop_id = sid, stop_name = name, stop_coordinates = coordinates,
            stop_address = address, lines = ls\<rparr>))))))"

text \<open>
  \<^verbatim>\<open>BusStopDisabled\<close> and \<^verbatim>\<open>InvalidToken\<close> are raised and caught inside the function;
  every other exception leaves it.
\<close>

definition parse_stop_info :: "(json \<Rightarrow> py_error + int) \<Rightarrow> json \<Rightarrow> stop_info \<Rightarrow> (parsed, stop_info) run" where
  "parse_stop_info py_int response stop_info =
     (case py_get response ''code'' of
        Inl e \<Rightarrow> \<lparr>outcome = Inl e, state = stop_info, logged = []\<rparr>
      | Inr code \<Rightarrow>
          if code = JStr ''90''
          then \<lparr>outcome = Inr Returned_None, state = stop_info,
                logged = [Warning ''Bus Stop disabled or does not exist'']\<rparr>
          else if code = JStr ''80''
          then \<lparr>outcome = Inr (Returned_error ''Invalid token''), state = stop_info,
                logged = [Warning ''Invalid or expired token'']\<rparr>
          else (case stop_update py_int response of
                  Inl e \<Rightarrow> \<lparr>outcome = Inl e, state = stop_info, logged = []\<rparr>
                | Inr new \<Rightarrow>
                    \<lparr>outcome = Inr (Returned_stop_info new), state = new, logged = []\<rparr>))"

subsection \<open>Arrivals\<close>

text \<open>
  \<^verbatim>\<open>math.trunc(x / 60)\<close> rounds the quotient toward zero. Python computes the quotient
  of two integers as a correctly rounded double; its truncation is the exact one below
  for \<open>\<bar>n\<bar> < 2 ^ 53\<close>, and for every larger \<open>n\<close> that still fits a double the quotient
  is above the cap of 45 anyway.
\<close>

definition py_trunc_div :: "int \<Rightarrow> int \<Rightarrow> int" where
  "py_trunc_div n d = (if 0 \<le> n then n div d else - ((- n) div d))"

text \<open>
  \<^verbatim>\<open>min(math.trunc(arrival.get("estimateArrive") / 60), 45)\<close>. A Boolean divides as 0
  or 1; \<^verbatim>\<open>None\<close>, a string, a list and a dictionary do not divide.
\<close>

definition arrival_time :: "json \<Rightarrow> py_error + int" where
  "arrival_time arrival =
     and_then (py_get arrival ''estimateArrive'') (\<lambda>estimate.
       case estimate of
         JInt n \<Rightarrow> Inr (min (py_trunc_div n 60) 45)
       | JBool b \<Rightarrow> Inr (min (py_trunc_div (if b then 1 else 0) 60) 45)
       | _ \<Rightarrow> Inl TypeError)"

text \<open>
  The body of the loop over the arrival records (the same text in \<^verbatim>\<open>parse_arrivals\<close>
  and in \<^verbatim>\<open>APIEMT._parse_arrivals\<close>): the line is looked up, the time is computed
  whether or not the line is known, and a known line gets both appends.
\<close>

definition parse_arrival :: "json \<Rightarrow> (json \<times> line_info) list \<Rightarrow> py_error + (json \<times> line_info) list" where
  "parse_arrival arrival ls =
     and_then (py_get arrival ''line'') (\<lambda>line.
       if \<not> hashable line then Inl TypeError
       else
         and_then (arrival_time arrival) (\<lambda>t.
           case map_of ls line of
             None \<Rightarrow> Inr ls
           | Some line_info \<Rightarrow>
               and_then (py_get arrival ''DistanceBus'') (\<lambda>d.
                 Inr (AList.update line
                        (line_info\<lparr>arrivals := arrivals line_info @ [Some t],
                                   distance := distance line_info @ [d]\<rparr>) ls))))"

text \<open>The loop stops at the first record that raises, with what the earlier ones stored.\<close>

fun arrivals_loop :: "json list \<Rightarrow> (json \<times> line_info) list \<Rightarrow> py_error option \<times> (json \<times> line_info) list" where
  "arrivals_loop [] ls = (None, ls)"
| "arrivals_loop (arrival # rest) ls =
     (case parse_arrival arrival ls of
        Inl e \<Rightarrow> (Some e, ls)
      | Inr ls' \<Rightarrow> arrivals_loop rest ls')"

text \<open>The first loop: every line's two sequences are replaced by empty ones.\<close>

definition clear_lines :: "(json \<times> line_info) list \<Rightarrow> (json \<times> line_info) list" where
  "clear_lines ls = map (\<lambda>(label, line_info). (label, line_info\<lparr>arrivals := [], distance := []\<rparr>)) ls"

text \<open>\<^verbatim>\<open>response["data"][0].get("Arrive", [])\<close>, as the \<^verbatim>\<open>for\<close> statement iterates it.\<close>

definition arrive_records :: "json \<Rightarrow> py_error + json list" where
  "arrive_records response =
     and_then (py_item response ''data'') (\<lambda>data.
     and_then (py_first data) (\<lambda>entry.
     and_then (py_get_default entry ''Arrive'' (JList [])) py_iter))"

text \<open>
  The branch both parsers take on a response that is not an error: the lines are cleared
  before the response is looked into, so a malformed response raises with cleared lines.
\<close>

definition update_arrivals :: "json \<Rightarrow> (json \<times> line_info) list \<Rightarrow> py_error option \<times> (json \<times> line_info) list" where
  "update_arrivals response ls =
     (case arrive_records response of
        Inl e \<Rightarrow> (Some e, clear_lines ls)
      | Inr records \<Rightarrow> arrivals_loop records (clear_lines ls))"

definition parse_arrivals :: "json \<Rightarrow> stop_info \<Rightarrow> (parsed, stop_info) run" where
  "parse_arrivals response stop_info =
     (case py_get response ''code'' of
        Inl e \<Rightarrow> \<lparr>outcome = Inl e, state = stop_info, logged = []\<rparr>
      | Inr code \<Rightarrow>
          (case (if code = JStr ''80''
                 then and_then (py_get response ''description'') (py_in ''token'')
                 else Inr False) of
             Inl e \<Rightarrow> \<lparr>outcome = Inl e, state = stop_info, logged = []\<rparr>
           | Inr True \<Rightarrow>
               \<lparr>outcome = Inr (Returned_error ''Invalid token''), state = stop_info,
                logged = [Warning ''Invalid or expired token'']\<rparr>
           | Inr False \<Rightarrow>
               if code = JStr ''80''
               then \<lparr>outcome = Inr Returned_None, state = stop_info,
                     logged = [Warning ''Bus Stop disabled or does not exist'']\<rparr>
               else (case update_arrivals response (lines stop_info) of
                       (Some e, ls) \<Rightarrow>
                         \<lparr>outcome = Inl e, state = stop_info\<lparr>lines := ls\<rparr>, logged = []\<rparr>
                     | (None, ls) \<Rightarrow>
                         \<lparr>outcome = Inr (Returned_stop_info (stop_info\<lparr>lines := ls\<rparr>)),
                          state = stop_info\<lparr>lines := ls\<rparr>, logged = []\<rparr>)))"

section \<open>The class APIEMT\<close>

text \<open>\<^verbatim>\<open>self._token\<close> and \<^verbatim>\<open>self._stop_info\<close>, and their values after \<^verbatim>\<open>__init__\<close>.\<close>

record apiemt =
  self_token :: json
  self_stop_info :: stop_info

definition APIEMT_init :: apiemt where
  "APIEMT_init =
     \<lparr>self_token = JNull,
      self_stop_info = \<lparr>stop_id = JNull, stop_name = JNull, stop_coordinates = JNull,
                        stop_address = JNull, lines = []\<rparr>\<rparr>"

text \<open>
  \<^verbatim>\<open>except (KeyError, IndexError) as error: raise ValueError(message) from error\<close>:
  the other exceptions pass.
\<close>

definition reraise :: "string \<Rightarrow> py_error \<Rightarrow> py_error" where
  "reraise message e = (if e = KeyError \<or> e = IndexError then ValueError message else e)"

definition APIEMT_extract_token :: "json \<Rightarrow> (json, unit) run" where
  "APIEMT_extract_token response =
     (case py_get response ''code'' of
        Inl e \<Rightarrow>
          \<lparr>outcome = Inl (reraise ''Unable to get token from the API'' e), state = (),
           logged = []\<rparr>
      | Inr code \<Rightarrow>
          if code \<noteq> JStr ''01''
          then \<lparr>outcome = Inr (JStr ''Invalid token''), state = (),
                logged = [Error ''Invalid email or password'']\<rparr>
          else (case and_then (py_item response ''data'') (\<lambda>data.
                     and_then (py_first data) (\<lambda>entry. py_item entry ''accessToken'')) of
                  Inl e \<Rightarrow>
                    \<lparr>outcome = Inl (reraise ''Unable to get token from the API'' e),
                     state = (), logged = []\<rparr>
                | Inr token \<Rightarrow> \<lparr>outcome = Inr token, state = (), logged = []\<rparr>))"

text \<open>
  The dictionary \<^verbatim>\<open>_parse_stop_info\<close> builds: the stop's id is the caller's, not the
  response's.
\<close>

definition APIEMT_stop_update :: "(json \<Rightarrow> py_error + int) \<Rightarrow> json \<Rightarrow> string \<Rightarrow> py_error + stop_info" where
  "APIEMT_stop_update py_int response sid =
     and_then (first_stop response) (\<lambda>stop_info.
     and_then (py_item stop_info ''name'') (\<lambda>name.
     and_then (and_then (py_item stop_info ''geometry'')
                 (\<lambda>geometry. py_item geometry ''coordinates'')) (\<lambda>coordinates.
     and_then (py_item stop_info ''postalAddress'') (\<lambda>address.
     and_then (and_then (py_item stop_info ''dataLine'') (APIEMT_parse_lines py_int)) (\<lambda>ls.
       Inr \<lparr>stop_id = JStr sid, stop_name = name, stop_coordinates = coordinates,
            stop_address = address, lines = ls\<rparr>)))))"

definition APIEMT_parse_stop_info :: "(json \<Rightarrow> py_error + int) \<Rightarrow> json \<Rightarrow> string \<Rightarrow> apiemt \<Rightarrow> (unit, apiemt) run" where
  "APIEMT_parse_stop_info py_int response sid self =
     (case py_get response ''code'' of
        Inl e \<Rightarrow>
          \<lparr>outcome = Inl (reraise ''Unable to get bus stop information'' e), state = self,
           logged = []\<rparr>
      | Inr code \<Rightarrow>
          if code \<noteq> JStr ''00''
          then \<lparr>outcome = Inr (), state = self,
                logged = [Warning ''Bus stop disabled or does not exist'']\<rparr>
          else (case APIEMT_stop_update py_int response sid of
                  Inl e \<Rightarrow>
                    \<lparr>outcome = Inl (reraise ''Unable to get bus stop information'' e),
                     state = self, logged = []\<rparr>
                | Inr new \<Rightarrow>
                    \<lparr>outcome = Inr (), state = self\<lparr>self_stop_info := new\<rparr>, logged = []\<rparr>))"

definition APIEMT_parse_arrivals :: "json \<Rightarrow> apiemt \<Rightarrow> (unit, apiemt) run" where
  "APIEMT_parse_arrivals response self =
     (case py_get response ''code'' of
        Inl e \<Rightarrow>
          \<lparr>outcome = Inl (reraise ''Unable to get the arrival times from the API'' e),
           state = self, logged = []\<rparr>
      | Inr code \<Rightarrow>
          if code = JStr ''80''
          then \<lparr>outcome = Inr (), state = self,
                logged = [Warning ''Bus Stop disabled or does not exist'']\<rparr>
          else (case update_arrivals response (lines (self_stop_info self)) of
                  (Some e, ls) \<Rightarrow>
                    \<lparr>outcome = Inl (reraise ''Unable to get the arrival times from the API'' e),
                     state = self\<lparr>self_stop_info := (self_stop_info self)\<lparr>lines := ls\<rparr>\<rparr>,
                     logged = []\<rparr>
                | (None, ls) \<Rightarrow>
                    \<lparr>outcome = Inr (),
                     state = self\<lparr>self_stop_info := (self_stop_info self)\<lparr>lines := ls\<rparr>\<rparr>,
                     logged = []\<rparr>))"

subsection \<open>Requests\<close>

text \<open>
  What \<^verbatim>\<open>_make_request\<close> hands to \<^verbatim>\<open>requests.request\<close>: the body is there for a
  \<^verbatim>\<open>POST\<close> only (the value that \<^verbatim>\<open>json.dumps\<close> serialises). The network and the server
  are a parameter \<open>send\<close>: the deserialised answer to a request, or the exception raised
  (\<open>HTTPError\<close> for a status that is not a success).
\<close>

record request =
  req_method :: string
  req_url :: string
  req_headers :: "(string \<times> json) list"
  req_data :: "json option"

text \<open>A call that may send requests also tells which.\<close>

record ('a, 's) io_run = "('a, 's) run" +
  sent :: "request list"

definition BASE_URL :: string where
  "BASE_URL = ''https://openapi.emtmadrid.es/''"

definition ENDPOINT_LOGIN :: string where
  "ENDPOINT_LOGIN = ''v1/mobilitylabs/user/login/''"

definition ENDPOINT_ARRIVAL_TIME :: string where
  "ENDPOINT_ARRIVAL_TIME = ''v2/transport/busemtmad/stops/''"

definition ENDPOINT_STOP_INFO :: string where
  "ENDPOINT_STOP_INFO = ''v1/transport/busemtmad/stops/''"

definition make_request ::
  "(request \<Rightarrow> py_error + json) \<Rightarrow> string \<Rightarrow> (string \<times> json) list \<Rightarrow> json \<Rightarrow> string
     \<Rightarrow> (py_error + json) \<times> request list" where
  "make_request send url headers data method =
     (if method \<noteq> ''POST'' \<and> method \<noteq> ''GET''
      then (Inl (ValueError (''Invalid HTTP method: '' @ method)), [])
      else
        (let req = \<lparr>req_method = method, req_url = url, req_headers = headers,
                    req_data = (if method = ''POST'' then Some data else None)\<rparr>
         in (send req, [req])))"

definition authenticate :: "(request \<Rightarrow> py_error + json) \<Rightarrow> string \<Rightarrow> string \<Rightarrow> apiemt \<Rightarrow> (json, apiemt) io_run" where
  "authenticate send user password self =
     (let headers = [(''email'', JStr user), (''password'', JStr password)];
          url = BASE_URL @ ENDPOINT_LOGIN
      in case make_request send url headers JNull ''GET'' of
           (Inl e, reqs) \<Rightarrow> \<lparr>outcome = Inl e, state = self, logged = [], sent = reqs\<rparr>
         | (Inr response, reqs) \<Rightarrow>
             (let r = APIEMT_extract_token response
              in case outcome r of
                   Inl e \<Rightarrow> \<lparr>outcome = Inl e, state = self, logged = logged r, sent = reqs\<rparr>
                 | Inr token \<Rightarrow>
                     \<lparr>outcome = Inr token, state = self\<lparr>self_token := token\<rparr>,
                      logged = logged r, sent = reqs\<rparr>))"

definition update_stop_info ::
  "(request \<Rightarrow> py_error + json) \<Rightarrow> (json \<Rightarrow> py_error + int) \<Rightarrow> string \<Rightarrow> apiemt \<Rightarrow> (unit, apiemt) io_run" where
  "update_stop_info send py_int sid self =
     (let url = BASE_URL @ ENDPOINT_STOP_INFO @ sid @ ''/detail/'';
          headers = [(''accessToken'', self_token self)];
          data = JDict [(''idStop'', JStr sid)]
      in if self_token self \<noteq> JStr ''Invalid token''
         then (case make_request send url headers data ''GET'' of
                 (Inl e, reqs) \<Rightarrow> \<lparr>outcome = Inl e, state = self, logged = [], sent = reqs\<rparr>
               | (Inr response, reqs) \<Rightarrow>
                   (let r = APIEMT_parse_stop_info py_int response sid self
                    in \<lparr>outcome = outcome r, state = state r, logged = logged r, sent = reqs\<rparr>))
         else \<lparr>outcome = Inr (), state = self, logged = [], sent = []\<rparr>)"

definition get_stop_info :: "apiemt \<Rightarrow> stop_info" where
  "get_stop_info self = self_stop_info self"

definition update_arrival_times :: "(request \<Rightarrow> py_error + json) \<Rightarrow> string \<Rightarrow> apiemt \<Rightarrow> (unit, apiemt) io_run" where
  "update_arrival_times send stop self =
     (let url = BASE_URL @ ENDPOINT_ARRIVAL_TIME @ stop @ ''/arrives/'';
          headers = [(''accessToken'', self_token self)];
          data = JDict [(''stopId'', JStr stop), (''Text_EstimationsRequired_YN'', JStr ''Y'')]
      in if self_token self \<noteq> JStr ''Invalid token''
         then (case make_request send url headers data ''POST'' of
                 (Inl e, reqs) \<Rightarrow> \<lparr>outcome = Inl e, state = self, logged = [], sent = reqs\<rparr>
               | (Inr response, reqs) \<Rightarrow>
                   (let r = APIEMT_parse_arrivals response self
                    in \<lparr>outcome = outcome r, state = state r, logged = logged r, sent = reqs\<rparr>))
         else \<lparr>outcome = Inr (), state = self, logged = [], sent = []\<rparr>)"

subsection \<open>The accessors\<close>

text \<open>\<^verbatim>\<open>while len(arrivals) < 2: arrivals.append(None)\<close>\<close>

function pad_arrivals :: "int option list \<Rightarrow> int option list" where
  "pad_arrivals xs = (if length xs < 2 then pad_arrivals (xs @ [None]) else xs)"
  by pat_completeness auto
termination
  by (relation "measure (\<lambda>xs. 2 - length xs)") auto

text \<open>
  The loop appends to the list stored in the line's dictionary, which is the list
  returned. The accessors take the label of a line, a string.
\<close>

definition get_arrival_time :: "string \<Rightarrow> apiemt \<Rightarrow> (int option list, apiemt) run" where
  "get_arrival_time line self =
     (case map_of (lines (self_stop_info self)) (JStr line) of
        None \<Rightarrow> \<lparr>outcome = Inr [None, None], state = self, logged = []\<rparr>
      | Some line_info \<Rightarrow>
          (let padded = pad_arrivals (arrivals line_info)
           in \<lparr>outcome = Inr padded,
               state = self\<lparr>self_stop_info := (self_stop_info self)
                         \<lparr>lines := AList.update (JStr line) (line_info\<lparr>arrivals := padded\<rparr>)
                                     (lines (self_stop_info self))\<rparr>\<rparr>,
               logged = []\<rparr>))"

definition get_line_info :: "string \<Rightarrow> apiemt \<Rightarrow> (line_info, apiemt) run" where
  "get_line_info line self =
     (case map_of (lines (self_stop_info self)) (JStr line) of
        Some line_info \<Rightarrow>
          if length (distance line_info) = 0
          then (let padded = line_info\<lparr>distance := distance line_info @ [JNull]\<rparr>
                in \<lparr>outcome = Inr padded,
                    state = self\<lparr>self_stop_info := (self_stop_info self)
                              \<lparr>lines := AList.update (JStr line) padded
                                          (lines (self_stop_info self))\<rparr>\<rparr>,
                    logged = []\<rparr>)
          else \<lparr>outcome = Inr line_info, state = self, logged = []\<rparr>
      | None \<Rightarrow>
          \<lparr>outcome = Inr \<lparr>destination = JNull, origin = JNull, max_freq = None,
                           min_freq = None, start_time = JNull, end_time = JNull,
                           day_type = JNull, distance = [JNull], arrivals = [None, None]\<rparr>,
           state = self,
           logged = [Warning (''The bus line '' @ line @ '' does not exist at this stop.'')]\<rparr>)"

section \<open>Example inputs\<close>

text \<open>
  A stand-in for \<^verbatim>\<open>int()\<close> in the examples, which apply it to integers only
  (strings are not parsed by it).
\<close>

definition example_int :: "json \<Rightarrow> py_error + int" where
  "example_int x =
     (case x of
        JInt n \<Rightarrow> Inr n
      | JBool b \<Rightarrow> Inr (if b then 1 else 0)
      | JStr s \<Rightarrow> Inl (ValueError ''invalid literal for int()'')
      | _ \<Rightarrow> Inl TypeError)"

text \<open>One record of \<^verbatim>\<open>dataLine\<close>, a stop-detail response, arrival records and error answers.\<close>

definition line_record :: "string \<Rightarrow> string \<Rightarrow> json" where
  "line_record label direction =
     JDict [(''label'', JStr label), (''direction'', JStr direction),
            (''headerA'', JStr ''PLAZA CASTILLA''), (''headerB'', JStr ''EMBAJADORES''),
            (''maxFreq'', JInt 15), (''minFreq'', JInt 7),
            (''startTime'', JStr ''06:00''), (''stopTime'', JStr ''23:30''),
            (''dayType'', JStr ''LA'')]"

definition stop_detail :: "json list \<Rightarrow> json" where
  "stop_detail records =
     JDict [(''code'', JStr ''00''), (''description'', JStr ''Data recovered OK''),
            (''data'', JList [JDict [(''stops'', JList [JDict
               [(''stop'', JStr ''72''), (''name'', JStr ''Cibeles-Casa de America''),
                (''geometry'', JDict [(''type'', JStr ''Point''),
                                      (''coordinates'', JList [JInt (- 4), JInt 40])]),
                (''postalAddress'', JStr ''Pza. de Cibeles, 2''),
                (''dataLine'', JList records)]])]])]"

definition arrive_record :: "string \<Rightarrow> int \<Rightarrow> int \<Rightarrow> json" where
  "arrive_record line seconds metres =
     JDict [(''line'', JStr line), (''stop'', JStr ''72''),
            (''estimateArrive'', JInt seconds), (''DistanceBus'', JInt metres)]"

definition arrivals_response :: "json list \<Rightarrow> json" where
  "arrivals_response records =
     JDict [(''code'', JStr ''00''), (''description'', JStr ''Data recovered OK''),
            (''data'', JList [JDict [(''Arrive'', JList records)]])]"

definition error_response :: "string \<Rightarrow> string \<Rightarrow> json" where
  "error_response code description =
     JDict [(''code'', JStr code), (''description'', JStr description), (''data'', JList [])]"

definition login_response :: "string \<Rightarrow> json" where
  "login_response token =
     JDict [(''code'', JStr ''01''), (''description'', JStr ''Token extended OK''),
            (''data'', JList [JDict [(''accessToken'', JStr token)]])]"

text \<open>An answer to the login with the success code and no \<^verbatim>\<open>accessToken\<close>.\<close>

definition malformed_login :: json where
  "malformed_login = JDict [(''code'', JStr ''01''), (''data'', JList [JDict []])]"

text \<open>
  A server in the manner of the test double of \<^verbatim>\<open>tests/conftest.py\<close>: the login is refused
  for the password \<^verbatim>\<open>invalid_password\<close>, every other request needs the token the login
  gave (a missing or other token is answered with code 80), a \<^verbatim>\<open>GET\<close> is the stop's
  detail and a \<^verbatim>\<open>POST\<close> its arrivals.
\<close>

definition example_server :: "request \<Rightarrow> py_error + json" where
  "example_server req =
     (if req_url req = BASE_URL @ ENDPOINT_LOGIN
      then (if map_of (req_headers req) ''password'' = Some (JStr ''invalid_password'')
            then Inr (error_response ''89'' ''Invalid user or password'')
            else Inr (login_response ''3bd5855a-ed3d-41d5-8b4b-182726f86031''))
      else if map_of (req_headers req) ''accessToken'' \<noteq> Some (JStr ''3bd5855a-ed3d-41d5-8b4b-182726f86031'')
      then Inr (error_response ''80'' ''Error, token not found in cache'')
      else if req_method req = ''GET''
      then Inr (stop_detail [line_record ''27'' ''A'', line_record ''53'' ''B''])
      else Inr (arrivals_response [arrive_record ''27'' 30 120, arrive_record ''53'' 3600 9000,
                                   arrive_record ''27'' 150 800, arrive_record ''27'' 1510 7000]))"

text \<open>
  Clients after a refused login, after a login and \<^verbatim>\<open>update_stop_info\<close>, and after
  \<^verbatim>\<open>update_arrival_times\<close> as well; and the dictionary \<^verbatim>\<open>parse_stop_info\<close> fills.
\<close>

definition example_rejected :: apiemt where
  "example_rejected = state (authenticate example_server ''user'' ''invalid_password'' APIEMT_init)"

definition example_stop_only :: apiemt where
  "example_stop_only =
     state (update_stop_info example_server example_int ''72''
       (state (authenticate example_server ''user'' ''password'' APIEMT_init)))"

definition example_self :: apiemt where
  "example_self =
     state (update_arrival_times example_server ''72''
       (state (update_stop_info example_server example_int ''72''
         (state (authenticate example_server ''user'' ''password'' APIEMT_init)))))"

definition example_stop :: stop_info where
  "example_stop =
     state (parse_stop_info example_int (stop_detail [line_record ''27'' ''A'', line_record ''53'' ''B''])
       (self_stop_info APIEMT_init))"

section \<open>Auxiliary facts\<close>

declare pad_arrivals.simps [simp del]

lemma and_then_Inr: "and_then m f = Inr r \<longleftrightarrow> (\<exists>v. m = Inr v \<and> f v = Inr r)"
  by (cases m) (simp_all add: and_then_def)

lemma py_get_dict: "py_get a k = Inr v \<Longrightarrow> \<exists>v'. py_get a k' = Inr v'"
  by (cases a) (simp_all add: py_get_def py_get_default_def)

lemma set_update_subset: "set (AList.update k v al) \<subseteq> insert (k, v) (set al)"
  by (induction al) auto

lemma map_fst_update_known:
  "map_of al k = Some v' \<Longrightarrow> map fst (AList.update k v al) = map fst al"
  by (induction al) auto

lemma pad_arrivals_eq: "pad_arrivals xs = xs @ replicate (2 - length xs) None"
proof (induction xs rule: pad_arrivals.induct)
  case (1 xs)
  show ?case
  proof (cases "length xs < 2")
    case True
    then have "2 - length xs = Suc (2 - length (xs @ [None]))" by simp
    with 1[OF True] True show ?thesis
      by (subst pad_arrivals.simps) (simp del: replicate_Suc add: replicate_Suc[symmetric])
  next
    case False
    then show ?thesis by (subst pad_arrivals.simps) simp
  qed
qed

subsection \<open>The examples, evaluated\<close>

lemma example_rejected_value:
  "example_rejected = APIEMT_init\<lparr>self_token := JStr ''Invalid token''\<rparr>"
  unfolding example_rejected_def by code_simp

lemma example_stop_only_27:
  "map_of (lines (self_stop_info example_stop_only)) (JStr ''27'') =
     Some \<lparr>destination = JStr ''PLAZA CASTILLA'', origin = JStr ''EMBAJADORES'',
           max_freq = Some 15, min_freq = Some 7, start_time = JStr ''06:00'',
           end_time = JStr ''23:30'', day_type = JStr ''LA'',
           distance = [], arrivals = []\<rparr>"
  unfolding example_stop_only_def by code_simp

lemma example_self_27:
  "map_of (lines (self_stop_info example_self)) (JStr ''27'') =
     Some \<lparr>destination = JStr ''PLAZA CASTILLA'', origin = JStr ''EMBAJADORES'',
           max_freq = Some 15, min_freq = Some 7, start_time = JStr ''06:00'',
           end_time = JStr ''23:30'', day_type = JStr ''LA'',
           distance = [JInt 120, JInt 800, JInt 7000],
           arrivals = [Some 0, Some 2, Some 25]\<rparr>"
  unfolding example_self_def by code_simp

lemma example_self_53:
  "map_of (lines (self_stop_info example_self)) (JStr ''53'') =
     Some \<lparr>destination = JStr ''EMBAJADORES'', origin = JStr ''PLAZA CASTILLA'',
           max_freq = Some 15, min_freq = Some 7, start_time = JStr ''06:00'',
           end_time = JStr ''23:30'', day_type = JStr ''LA'',
           distance = [JInt 9000], arrivals = [Some 45]\<rparr>"
  unfolding example_self_def by code_simp


lemma py_get_error_response_code: "py_get (error_response code description) ''code'' = Inr (JStr code)"
  by (simp add: error_response_def py_get_def py_get_default_def)

lemma py_get_error_response_description:
  "py_get (error_response code description) ''description'' = Inr (JStr description)"
  by (simp add: error_response_def py_get_def py_get_default_def)

lemma token_in_description: "sublist ''token'' ''Error, token not found in cache''"
  by code_simp

lemma token_not_in_description: "\<not> sublist ''token'' ''Parada no disponible''"
  by code_simp

lemma parse_lines_direction_B:
  "parse_lines example_int (JList [line_record ''53'' ''B'']) =
     Inr [(JStr ''53'',
           \<lparr>destination = JStr ''EMBAJADORES'', origin = JStr ''PLAZA CASTILLA'',
            max_freq = Some 15, min_freq = Some 7, start_time = JStr ''06:00'',
            end_time = JStr ''23:30'', day_type = JStr ''LA'', distance = [], arrivals = []\<rparr>)]"
  by (simp add: parse_lines_def py_iter_def and_then_def parse_line_def line_record_def
      py_item_def example_int_def hashable_def)

lemma example_server_null_token:
  "example_server \<lparr>req_method = ''GET'', req_url = BASE_URL @ ENDPOINT_STOP_INFO @ ''72'' @ ''/detail/'',
                   req_headers = [(''accessToken'', JNull)], req_data = None\<rparr> =
     Inr (error_response ''80'' ''Error, token not found in cache'')"
  by code_simp

lemma parse_stop_info_null_token:
  "APIEMT_parse_stop_info example_int (error_response ''80'' ''Error, token not found in cache'')
     ''72'' APIEMT_init =
   \<lparr>outcome = Inr (), state = APIEMT_init,
    logged = [Warning ''Bus stop disabled or does not exist'']\<rparr>"
  by (simp add: APIEMT_parse_stop_info_def error_response_def py_get_def py_get_default_def)

lemma rebuilt_outcome:
  "outcome (parse_arrivals (arrivals_response [arrive_record ''27'' 59 400, arrive_record ''27'' 125 900])
      (self_stop_info example_self)) =
   Inr (Returned_stop_info
     (state (parse_arrivals (arrivals_response [arrive_record ''27'' 59 400, arrive_record ''27'' 125 900])
        (self_stop_info example_self))))"
  unfolding example_self_def by code_simp

lemma rebuilt_27:
  "map_of (lines (state (parse_arrivals
       (arrivals_response [arrive_record ''27'' 59 400, arrive_record ''27'' 125 900])
       (self_stop_info example_self)))) (JStr ''27'') =
     Some \<lparr>destination = JStr ''PLAZA CASTILLA'', origin = JStr ''EMBAJADORES'',
           max_freq = Some 15, min_freq = Some 7, start_time = JStr ''06:00'',
           end_time = JStr ''23:30'', day_type = JStr ''LA'',
           distance = [JInt 400, JInt 900], arrivals = [Some 0, Some 2]\<rparr>"
  unfolding example_self_def by code_simp

lemma rebuilt_53:
  "map_of (lines (state (parse_arrivals
       (arrivals_response [arrive_record ''27'' 59 400, arrive_record ''27'' 125 900])
       (self_stop_info example_self)))) (JStr ''53'') =
     Some \<lparr>destination = JStr ''EMBAJADORES'', origin = JStr ''PLAZA CASTILLA'',
           max_freq = Some 15, min_freq = Some 7, start_time = JStr ''06:00'',
           end_time = JStr ''23:30'', day_type = JStr ''LA'',
           distance = [], arrivals = []\<rparr>"
  unfolding example_self_def by code_simp





subsection \<open>The loop over the line records\<close>

lemma parse_line_fields:
  assumes "parse_line py_int line = Inr (label, info)"
  shows "\<exists>d. py_item line ''label'' = Inr label \<and> py_item line ''direction'' = Inr d \<and>
     (if d = JStr ''A'' then py_item line ''headerA'' else py_item line ''headerB'') = Inr (destination info) \<and>
     (if d = JStr ''B'' then py_item line ''headerA'' else py_item line ''headerB'') = Inr (origin info) \<and>
     distance info = [] \<and> arrivals info = []"
proof -
  from assms obtain line_number d dest d' orig maxf minf start stop day where
    a: "py_item line ''label'' = Inr line_number"
    and b: "py_item line ''direction'' = Inr d"
    and c: "(if d = JStr ''A'' then py_item line ''headerA'' else py_item line ''headerB'') = Inr dest"
    and b': "py_item line ''direction'' = Inr d'"
    and c': "(if d' = JStr ''B'' then py_item line ''headerA'' else py_item line ''headerB'') = Inr orig"
    and r: "(label, info) = (line_number,
            \<lparr>destination = dest, origin = orig, max_freq = Some maxf, min_freq = Some minf,
             start_time = start, end_time = stop, day_type = day,
             distance = [], arrivals = []\<rparr>)"
    unfolding parse_line_def and_then_Inr by (elim exE conjE) (simp only: sum.inject, blast)
  from b b' have "d' = d" by simp
  with a b c c' r show ?thesis by simp
qed

lemma parse_lines_loop_entries:
  assumes "parse_lines_loop py_int records acc = Inr result" and "(label, info) \<in> set result"
  shows "(label, info) \<in> set acc \<or> (\<exists>line \<in> set records. parse_line py_int line = Inr (label, info))"
  using assms
proof (induction records arbitrary: acc)
  case Nil
  then show ?case by simp
next
  case (Cons line rest)
  from Cons.prems(1) obtain k v where
    pl: "parse_line py_int line = Inr (k, v)"
    and rest: "parse_lines_loop py_int rest (AList.update k v acc) = Inr result"
    by (auto split: sum.splits if_splits)
  from Cons.IH[OF rest Cons.prems(2)] show ?case
  proof
    assume "(label, info) \<in> set (AList.update k v acc)"
    with set_update_subset[of k v acc] have "(label, info) = (k, v) \<or> (label, info) \<in> set acc"
      by auto
    with pl show ?thesis by auto
  next
    assume "\<exists>line \<in> set rest. parse_line py_int line = Inr (label, info)"
    then show ?thesis by auto
  qed
qed

subsection \<open>The loops over the arrival records\<close>

lemma parse_arrival_Inr:
  assumes "parse_arrival a ls = Inr ls1"
  shows "\<exists>line t d. py_get a ''line'' = Inr line \<and> hashable line \<and> arrival_time a = Inr t \<and>
           py_get a ''DistanceBus'' = Inr d \<and>
           ls1 = (case map_of ls line of
                    None \<Rightarrow> ls
                  | Some li \<Rightarrow> AList.update line
                      (li\<lparr>arrivals := arrivals li @ [Some t], distance := distance li @ [d]\<rparr>) ls)"
proof -
  from assms obtain line where l: "py_get a ''line'' = Inr line"
    and r: "(if \<not> hashable line then Inl TypeError
       else
         and_then (arrival_time a) (\<lambda>t.
           case map_of ls line of
             None \<Rightarrow> Inr ls
           | Some line_info \<Rightarrow>
               and_then (py_get a ''DistanceBus'') (\<lambda>d.
                 Inr (AList.update line
                        (line_info\<lparr>arrivals := arrivals line_info @ [Some t],
                                   distance := distance line_info @ [d]\<rparr>) ls)))) = Inr ls1"
    unfolding parse_arrival_def and_then_Inr by blast
  from r have h: "hashable line" by (auto split: if_splits)
  with r obtain t where t: "arrival_time a = Inr t"
    and r': "(case map_of ls line of
             None \<Rightarrow> Inr ls
           | Some line_info \<Rightarrow>
               and_then (py_get a ''DistanceBus'') (\<lambda>d.
                 Inr (AList.update line
                        (line_info\<lparr>arrivals := arrivals line_info @ [Some t],
                                   distance := distance line_info @ [d]\<rparr>) ls))) = Inr ls1"
    by (auto simp: and_then_Inr)
  from py_get_dict[OF l] obtain d where d: "py_get a ''DistanceBus'' = Inr d" by blast
  from r' d have "ls1 = (case map_of ls line of
                    None \<Rightarrow> ls
                  | Some li \<Rightarrow> AList.update line
                      (li\<lparr>arrivals := arrivals li @ [Some t], distance := distance li @ [d]\<rparr>) ls)"
    by (auto simp: and_then_def split: option.splits)
  with l h t d show ?thesis by blast
qed

lemma arrivals_loop_keys:
  "arrivals_loop records ls = (None, ls') \<Longrightarrow> map fst ls' = map fst ls"
proof (induction records arbitrary: ls)
  case Nil
  then show ?case by simp
next
  case (Cons a rest)
  from Cons.prems obtain ls1 where p: "parse_arrival a ls = Inr ls1"
    and l: "arrivals_loop rest ls1 = (None, ls')"
    by (auto split: sum.splits)
  from parse_arrival_Inr[OF p] have "map fst ls1 = map fst ls"
    by (auto simp: map_fst_update_known split: option.splits)
  with Cons.IH[OF l] show ?case by simp
qed

lemma arrivals_loop_lengths:
  assumes "arrivals_loop records ls = (None, ls')"
    and "\<forall>(k, li) \<in> set ls. length (arrivals li) = length (distance li)"
  shows "\<forall>(k, li) \<in> set ls'. length (arrivals li) = length (distance li)"
  using assms
proof (induction records arbitrary: ls)
  case Nil
  then show ?case by simp
next
  case (Cons a rest)
  from Cons.prems(1) obtain ls1 where p: "parse_arrival a ls = Inr ls1"
    and l: "arrivals_loop rest ls1 = (None, ls')"
    by (auto split: sum.splits)
  from parse_arrival_Inr[OF p] obtain line t d where
    ls1: "ls1 = (case map_of ls line of
                    None \<Rightarrow> ls
                  | Some li \<Rightarrow> AList.update line
                      (li\<lparr>arrivals := arrivals li @ [Some t], distance := distance li @ [d]\<rparr>) ls)"
    by blast
  have "\<forall>(k, li) \<in> set ls1. length (arrivals li) = length (distance li)"
  proof (cases "map_of ls line")
    case None
    with ls1 Cons.prems(2) show ?thesis by simp
  next
    case (Some li)
    then have "(line, li) \<in> set ls" by (rule map_of_SomeD)
    with Cons.prems(2) have "length (arrivals li) = length (distance li)" by auto
    with Some ls1 Cons.prems(2)
      set_update_subset[of line "li\<lparr>arrivals := arrivals li @ [Some t], distance := distance li @ [d]\<rparr>" ls]
    show ?thesis by auto
  qed
  from Cons.IH[OF l this] show ?case .
qed

lemma arrivals_loop_appends:
  assumes "arrivals_loop records ls = (None, ls')" and "map_of ls k = Some li"
  shows "map_of ls' k =
           Some (li\<lparr>arrivals := arrivals li @
                       map (\<lambda>r. Some (projr (arrival_time r)))
                         (filter (\<lambda>r. py_get r ''line'' = Inr k) records),
                     distance := distance li @
                       map (\<lambda>r. projr (py_get r ''DistanceBus''))
                         (filter (\<lambda>r. py_get r ''line'' = Inr k) records)\<rparr>)"
  using assms
proof (induction records arbitrary: ls li)
  case Nil
  then show ?case by simp
next
  case (Cons a rest)
  from Cons.prems(1) obtain ls1 where p: "parse_arrival a ls = Inr ls1"
    and l: "arrivals_loop rest ls1 = (None, ls')"
    by (auto split: sum.splits)
  from parse_arrival_Inr[OF p] obtain line t d where
    line: "py_get a ''line'' = Inr line" and t: "arrival_time a = Inr t"
    and d: "py_get a ''DistanceBus'' = Inr d"
    and ls1: "ls1 = (case map_of ls line of
                    None \<Rightarrow> ls
                  | Some li \<Rightarrow> AList.update line
                      (li\<lparr>arrivals := arrivals li @ [Some t], distance := distance li @ [d]\<rparr>) ls)"
    by blast
  show ?case
  proof (cases "line = k")
    case True
    with ls1 Cons.prems(2) have
      "map_of ls1 k = Some (li\<lparr>arrivals := arrivals li @ [Some t], distance := distance li @ [d]\<rparr>)"
      by (simp add: update_conv')
    from Cons.IH[OF l this] True line t d show ?thesis by simp
  next
    case False
    with ls1 Cons.prems(2) have "map_of ls1 k = Some li"
      by (simp add: update_conv' split: option.splits)
    from Cons.IH[OF l this] False line show ?thesis by simp
  qed
qed

lemma map_of_clear_lines:
  "map_of (clear_lines ls) k = map_option (\<lambda>li. li\<lparr>arrivals := [], distance := []\<rparr>) (map_of ls k)"
  by (induction ls) (auto simp: clear_lines_def)

lemma map_fst_clear_lines: "map fst (clear_lines ls) = map fst ls"
  by (induction ls) (auto simp: clear_lines_def)

lemma clear_lines_lengths:
  "\<forall>(k, li) \<in> set (clear_lines ls). length (arrivals li) = length (distance li)"
  by (auto simp: clear_lines_def)

lemma update_arrivals_rebuilds:
  assumes "update_arrivals response ls = (None, ls')"
  shows "\<exists>records. arrive_records response = Inr records \<and>
           map fst ls' = map fst ls \<and>
           (\<forall>(k, li') \<in> set ls'. length (arrivals li') = length (distance li')) \<and>
           (\<forall>k li. map_of ls k = Some li \<longrightarrow>
              map_of ls' k =
                Some (li\<lparr>arrivals := map (\<lambda>r. Some (projr (arrival_time r)))
                                       (filter (\<lambda>r. py_get r ''line'' = Inr k) records),
                          distance := map (\<lambda>r. projr (py_get r ''DistanceBus''))
                                       (filter (\<lambda>r. py_get r ''line'' = Inr k) records)\<rparr>))"
proof -
  from assms obtain records where r: "arrive_records response = Inr records"
    and l: "arrivals_loop records (clear_lines ls) = (None, ls')"
    by (auto simp: update_arrivals_def split: sum.splits)
  have keys: "map fst ls' = map fst ls"
    using arrivals_loop_keys[OF l] by (simp add: map_fst_clear_lines)
  have lens: "\<forall>(k, li') \<in> set ls'. length (arrivals li') = length (distance li')"
    by (rule arrivals_loop_lengths[OF l clear_lines_lengths])
  have vals: "map_of ls' k =
                Some (li\<lparr>arrivals := map (\<lambda>r. Some (projr (arrival_time r)))
                                       (filter (\<lambda>r. py_get r ''line'' = Inr k) records),
                          distance := map (\<lambda>r. projr (py_get r ''DistanceBus''))
                                       (filter (\<lambda>r. py_get r ''line'' = Inr k) records)\<rparr>)"
    if "map_of ls k = Some li" for k li
  proof -
    from that have "map_of (clear_lines ls) k = Some (li\<lparr>arrivals := [], distance := []\<rparr>)"
      by (simp add: map_of_clear_lines)
    from arrivals_loop_appends[OF l this] show ?thesis by simp
  qed
  from r keys lens vals show ?thesis by blast
qed

lemma parse_arrivals_success:
  assumes "outcome (parse_arrivals response before) = Inr (Returned_stop_info after)"
  shows "update_arrivals response (lines before) = (None, lines after) \<and>
         after = before\<lparr>lines := lines after\<rparr> \<and>
         state (parse_arrivals response before) = after"
  using assms
  by (auto simp: parse_arrivals_def split: sum.splits bool.splits if_splits prod.splits option.splits)

lemma APIEMT_parse_arrivals_success:
  assumes "py_get response ''code'' \<noteq> Inr (JStr ''80'')"
    and "outcome (APIEMT_parse_arrivals response self) = Inr ()"
  shows "update_arrivals response (lines (self_stop_info self)) =
           (None, lines (self_stop_info (state (APIEMT_parse_arrivals response self)))) \<and>
         self_stop_info (state (APIEMT_parse_arrivals response self)) =
           (self_stop_info self)
             \<lparr>lines := lines (self_stop_info (state (APIEMT_parse_arrivals response self)))\<rparr> \<and>
         self_token (state (APIEMT_parse_arrivals response self)) = self_token self"
  using assms
  by (auto simp: APIEMT_parse_arrivals_def split: sum.splits if_splits prod.splits option.splits)


section \<open>Origin and destination of a line\<close>

text \<open>
  Claim C1, as the code has it. Every entry of the dictionary that \<^verbatim>\<open>parse_lines\<close> (or
  \<^verbatim>\<open>APIEMT._parse_lines\<close>) returns comes from a record of the input with that label, and
  its \<open>destination\<close> and \<open>origin\<close> follow the record's \<^verbatim>\<open>direction\<close>: for \<^verbatim>\<open>"A"\<close> the
  destination is \<^verbatim>\<open>headerA\<close> and the origin \<^verbatim>\<open>headerB\<close>; for \<^verbatim>\<open>"B"\<close> the destination is
  \<^verbatim>\<open>headerB\<close> and the origin \<^verbatim>\<open>headerA\<close>; for any other value both are \<^verbatim>\<open>headerB\<close>,
  because the origin is \<^verbatim>\<open>headerA\<close> only when the direction is \<^verbatim>\<open>"B"\<close>.
\<close>

theorem parse_lines_destination_origin:
  assumes "parse_lines py_int ls = Inr result \<or> APIEMT_parse_lines py_int ls = Inr result"
    and "(label, info) \<in> set result"
  shows "\<exists>records line direction.
           py_iter ls = Inr records \<and> line \<in> set records \<and>
           py_item line ''label'' = Inr label \<and>
           py_item line ''direction'' = Inr direction \<and>
           (direction = JStr ''A'' \<longrightarrow>
              py_item line ''headerA'' = Inr (destination info) \<and>
              py_item line ''headerB'' = Inr (origin info)) \<and>
           (direction = JStr ''B'' \<longrightarrow>
              py_item line ''headerB'' = Inr (destination info) \<and>
              py_item line ''headerA'' = Inr (origin info)) \<and>
           (direction \<noteq> JStr ''A'' \<and> direction \<noteq> JStr ''B'' \<longrightarrow>
              py_item line ''headerB'' = Inr (destination info) \<and>
              py_item line ''headerB'' = Inr (origin info))"
proof -
  from assms(1) have "parse_lines py_int ls = Inr result"
    by (simp add: APIEMT_parse_lines_def)
  then obtain records where it: "py_iter ls = Inr records"
    and loop: "parse_lines_loop py_int records [] = Inr result"
    by (auto simp: parse_lines_def and_then_Inr)
  from parse_lines_loop_entries[OF loop assms(2)] obtain line where
    mem: "line \<in> set records" and pl: "parse_line py_int line = Inr (label, info)"
    by auto
  from parse_line_fields[OF pl] obtain d where
    "py_item line ''label'' = Inr label" "py_item line ''direction'' = Inr d"
    "(if d = JStr ''A'' then py_item line ''headerA'' else py_item line ''headerB'') = Inr (destination info)"
    "(if d = JStr ''B'' then py_item line ''headerA'' else py_item line ''headerB'') = Inr (origin info)"
    by auto
  with it mem show ?thesis
    by (intro exI[of _ records] exI[of _ line] exI[of _ d]) (auto split: if_splits)
qed

text \<open>The theorem at a record of direction \<^verbatim>\<open>"B"\<close>.\<close>

theorem parse_lines_destination_origin_witness:
  "parse_lines example_int (JList [line_record ''53'' ''B'']) =
     Inr [(JStr ''53'',
           \<lparr>destination = JStr ''EMBAJADORES'', origin = JStr ''PLAZA CASTILLA'',
            max_freq = Some 15, min_freq = Some 7, start_time = JStr ''06:00'',
            end_time = JStr ''23:30'', day_type = JStr ''LA'', distance = [], arrivals = []\<rparr>)] \<and>
   (\<exists>records line direction.
      py_iter (JList [line_record ''53'' ''B'']) = Inr records \<and> line \<in> set records \<and>
      py_item line ''label'' = Inr (JStr ''53'') \<and>
      py_item line ''direction'' = Inr direction \<and>
      (direction = JStr ''A'' \<longrightarrow>
         py_item line ''headerA'' = Inr (JStr ''EMBAJADORES'') \<and>
         py_item line ''headerB'' = Inr (JStr ''PLAZA CASTILLA'')) \<and>
      (direction = JStr ''B'' \<longrightarrow>
         py_item line ''headerB'' = Inr (JStr ''EMBAJADORES'') \<and>
         py_item line ''headerA'' = Inr (JStr ''PLAZA CASTILLA'')) \<and>
      (direction \<noteq> JStr ''A'' \<and> direction \<noteq> JStr ''B'' \<longrightarrow>
         py_item line ''headerB'' = Inr (JStr ''EMBAJADORES'') \<and>
         py_item line ''headerB'' = Inr (JStr ''PLAZA CASTILLA'')))"
proof -
  let ?info = "\<lparr>destination = JStr ''EMBAJADORES'', origin = JStr ''PLAZA CASTILLA'',
            max_freq = Some 15, min_freq = Some 7, start_time = JStr ''06:00'',
            end_time = JStr ''23:30'', day_type = JStr ''LA'', distance = [], arrivals = []\<rparr>"
  have h: "parse_lines example_int (JList [line_record ''53'' ''B'']) = Inr [(JStr ''53'', ?info)]"
    by (rule parse_lines_direction_B)
  have m: "(JStr ''53'', ?info) \<in> set [(JStr ''53'', ?info)]" by simp
  from parse_lines_destination_origin[OF disjI1[OF h] m] h show ?thesis by simp
qed

text \<open>
  Claim C1 as it was stated fails at a direction that is neither \<^verbatim>\<open>"A"\<close> nor \<^verbatim>\<open>"B"\<close>: the
  record's \<^verbatim>\<open>headerA\<close> is \<^verbatim>\<open>PLAZA CASTILLA\<close>, and the origin stored is \<^verbatim>\<open>headerB\<close>.
\<close>

theorem parse_lines_origin_counterexample:
  "py_item (line_record ''27'' ''C'') ''direction'' = Inr (JStr ''C'') \<and>
   py_item (line_record ''27'' ''C'') ''headerA'' = Inr (JStr ''PLAZA CASTILLA'') \<and>
   py_item (line_record ''27'' ''C'') ''headerB'' = Inr (JStr ''EMBAJADORES'') \<and>
   parse_lines example_int (JList [line_record ''27'' ''C'']) =
     Inr [(JStr ''27'',
           \<lparr>destination = JStr ''EMBAJADORES'', origin = JStr ''EMBAJADORES'',
            max_freq = Some 15, min_freq = Some 7, start_time = JStr ''06:00'',
            end_time = JStr ''23:30'', day_type = JStr ''LA'', distance = [], arrivals = []\<rparr>)]"
  by (simp add: parse_lines_def py_iter_def and_then_def parse_line_def line_record_def
      py_item_def example_int_def hashable_def)

section \<open>The accessors\<close>

text \<open>
  Claim C2, as the code has it. For an unknown line \<^verbatim>\<open>get_arrival_time\<close> returns two
  \<^verbatim>\<open>None\<close>; for a known line it returns the stored arrivals followed by as many \<^verbatim>\<open>None\<close>
  as are missing to two. The result has two elements or as many as are stored, whichever
  is more: nothing is cut off.
\<close>

theorem get_arrival_time_pads_only:
  "(map_of (lines (self_stop_info self)) (JStr line) = None \<longrightarrow>
      outcome (get_arrival_time line self) = Inr [None, None]) \<and>
   (\<forall>li. map_of (lines (self_stop_info self)) (JStr line) = Some li \<longrightarrow>
      (\<exists>r. outcome (get_arrival_time line self) = Inr r \<and>
           r = arrivals li @ replicate (2 - length (arrivals li)) None \<and>
           length r = max 2 (length (arrivals li))))"
  by (auto simp: get_arrival_time_def pad_arrivals_eq Let_def)

text \<open>The theorem at a line with one stored arrival, and at an unknown line.\<close>

theorem get_arrival_time_pads_only_witness:
  "map_of (lines (self_stop_info example_self)) (JStr ''53'') =
     Some \<lparr>destination = JStr ''EMBAJADORES'', origin = JStr ''PLAZA CASTILLA'',
           max_freq = Some 15, min_freq = Some 7, start_time = JStr ''06:00'',
           end_time = JStr ''23:30'', day_type = JStr ''LA'',
           distance = [JInt 9000], arrivals = [Some 45]\<rparr> \<and>
   outcome (get_arrival_time ''53'' example_self) = Inr [Some 45, None] \<and>
   map_of (lines (self_stop_info example_self)) (JStr ''99'') = None \<and>
   outcome (get_arrival_time ''99'' example_self) = Inr [None, None]"
proof -
  have none: "map_of (lines (self_stop_info example_self)) (JStr ''99'') = None"
    unfolding example_self_def by code_simp
  from get_arrival_time_pads_only[of example_self "''53''"] example_self_53
    get_arrival_time_pads_only[of example_self "''99''"] none
  show ?thesis by (simp add: numeral_2_eq_2)
qed

text \<open>
  Claim C2 as it was stated (exactly two elements, a longer sequence truncated) fails once
  the server has reported three buses of one line: all three are returned.
\<close>

theorem get_arrival_time_three_counterexample:
  "\<exists>r. outcome (get_arrival_time ''27'' example_self) = Inr r \<and> length r = 3"
  by (simp add: get_arrival_time_def example_self_27 pad_arrivals_eq Let_def)

text \<open>
  Claim C9. For a known line with fewer than two stored arrivals, after
  \<^verbatim>\<open>get_arrival_time\<close> the snapshot that \<^verbatim>\<open>get_stop_info\<close> returns holds the padded
  sequence, which is also what the accessor returned; for a known line with an empty stored
  \<open>distance\<close>, after \<^verbatim>\<open>get_line_info\<close> the snapshot holds \<^verbatim>\<open>[None]\<close> there.
\<close>

theorem accessors_pad_the_stored_lists:
  assumes "map_of (lines (self_stop_info self)) (JStr line) = Some li"
  shows "(length (arrivals li) < 2 \<longrightarrow>
            map_of (lines (get_stop_info (state (get_arrival_time line self)))) (JStr line) =
              Some (li\<lparr>arrivals := arrivals li @ replicate (2 - length (arrivals li)) None\<rparr>) \<and>
            outcome (get_arrival_time line self) =
              Inr (arrivals li @ replicate (2 - length (arrivals li)) None)) \<and>
         (distance li = [] \<longrightarrow>
            map_of (lines (get_stop_info (state (get_line_info line self)))) (JStr line) =
              Some (li\<lparr>distance := [JNull]\<rparr>) \<and>
            outcome (get_line_info line self) = Inr (li\<lparr>distance := [JNull]\<rparr>))"
  using assms
  by (simp add: get_arrival_time_def get_line_info_def get_stop_info_def pad_arrivals_eq
      Let_def update_conv')

text \<open>The theorem at a line of a stop whose arrivals have not been fetched yet.\<close>

theorem accessors_pad_the_stored_lists_witness:
  "map_of (lines (self_stop_info example_stop_only)) (JStr ''27'') =
     Some \<lparr>destination = JStr ''PLAZA CASTILLA'', origin = JStr ''EMBAJADORES'',
           max_freq = Some 15, min_freq = Some 7, start_time = JStr ''06:00'',
           end_time = JStr ''23:30'', day_type = JStr ''LA'',
           distance = [], arrivals = []\<rparr> \<and>
   map_of (lines (get_stop_info (state (get_arrival_time ''27'' example_stop_only)))) (JStr ''27'') =
     Some \<lparr>destination = JStr ''PLAZA CASTILLA'', origin = JStr ''EMBAJADORES'',
           max_freq = Some 15, min_freq = Some 7, start_time = JStr ''06:00'',
           end_time = JStr ''23:30'', day_type = JStr ''LA'',
           distance = [], arrivals = [None, None]\<rparr> \<and>
   map_of (lines (get_stop_info (state (get_line_info ''27'' example_stop_only)))) (JStr ''27'') =
     Some \<lparr>destination = JStr ''PLAZA CASTILLA'', origin = JStr ''EMBAJADORES'',
           max_freq = Some 15, min_freq = Some 7, start_time = JStr ''06:00'',
           end_time = JStr ''23:30'', day_type = JStr ''LA'',
           distance = [JNull], arrivals = []\<rparr>"
  using accessors_pad_the_stored_lists[OF example_stop_only_27] example_stop_only_27
  by (simp add: numeral_2_eq_2)

section \<open>The guard on the token\<close>

text \<open>
  Claim C6. When the stored token is the string \<^verbatim>\<open>"Invalid token"\<close>, \<^verbatim>\<open>update_stop_info\<close>
  and \<^verbatim>\<open>update_arrival_times\<close> send no request, log nothing, and leave the client, its
  snapshot included, as it was.
\<close>

theorem invalid_token_suppresses_updates:
  assumes "self_token self = JStr ''Invalid token''"
  shows "update_stop_info send py_int sid self =
           \<lparr>outcome = Inr (), state = self, logged = [], sent = []\<rparr> \<and>
         update_arrival_times send sid self =
           \<lparr>outcome = Inr (), state = self, logged = [], sent = []\<rparr>"
  using assms by (simp add: update_stop_info_def update_arrival_times_def)

text \<open>
  The theorem after a login with a wrong password: the token is the marker, and the
  snapshot's lines stay empty.
\<close>

theorem invalid_token_suppresses_updates_witness:
  "self_token example_rejected = JStr ''Invalid token'' \<and>
   update_stop_info example_server example_int ''1234'' example_rejected =
     \<lparr>outcome = Inr (), state = example_rejected, logged = [], sent = []\<rparr> \<and>
   update_arrival_times example_server ''1234'' example_rejected =
     \<lparr>outcome = Inr (), state = example_rejected, logged = [], sent = []\<rparr> \<and>
   lines (get_stop_info example_rejected) = []"
proof -
  have h: "self_token example_rejected = JStr ''Invalid token''"
    by (simp add: example_rejected_value)
  have l: "lines (get_stop_info example_rejected) = []"
    by (simp add: example_rejected_value get_stop_info_def APIEMT_init_def)
  from invalid_token_suppresses_updates[OF h, of example_server example_int "''1234''"] h l
  show ?thesis by simp
qed

text \<open>
  Claim C10. The token is \<^verbatim>\<open>None\<close> after \<^verbatim>\<open>__init__\<close>. With the token \<^verbatim>\<open>None\<close> both updates
  send their one request, with \<^verbatim>\<open>None\<close> as the \<^verbatim>\<open>accessToken\<close> header, and when the request
  is answered, the call returns, logs and leaves the client as the parse of the answer does.
\<close>

theorem null_token_is_sent:
  "self_token APIEMT_init = JNull \<and>
   sent (update_stop_info send py_int sid (self\<lparr>self_token := JNull\<rparr>)) =
     [\<lparr>req_method = ''GET'', req_url = BASE_URL @ ENDPOINT_STOP_INFO @ sid @ ''/detail/'',
       req_headers = [(''accessToken'', JNull)], req_data = None\<rparr>] \<and>
   (\<forall>response.
      send \<lparr>req_method = ''GET'', req_url = BASE_URL @ ENDPOINT_STOP_INFO @ sid @ ''/detail/'',
            req_headers = [(''accessToken'', JNull)], req_data = None\<rparr> = Inr response \<longrightarrow>
      outcome (update_stop_info send py_int sid (self\<lparr>self_token := JNull\<rparr>)) =
        outcome (APIEMT_parse_stop_info py_int response sid (self\<lparr>self_token := JNull\<rparr>)) \<and>
      state (update_stop_info send py_int sid (self\<lparr>self_token := JNull\<rparr>)) =
        state (APIEMT_parse_stop_info py_int response sid (self\<lparr>self_token := JNull\<rparr>)) \<and>
      logged (update_stop_info send py_int sid (self\<lparr>self_token := JNull\<rparr>)) =
        logged (APIEMT_parse_stop_info py_int response sid (self\<lparr>self_token := JNull\<rparr>))) \<and>
   sent (update_arrival_times send sid (self\<lparr>self_token := JNull\<rparr>)) =
     [\<lparr>req_method = ''POST'', req_url = BASE_URL @ ENDPOINT_ARRIVAL_TIME @ sid @ ''/arrives/'',
       req_headers = [(''accessToken'', JNull)],
       req_data = Some (JDict [(''stopId'', JStr sid),
                               (''Text_EstimationsRequired_YN'', JStr ''Y'')])\<rparr>] \<and>
   (\<forall>response.
      send \<lparr>req_method = ''POST'', req_url = BASE_URL @ ENDPOINT_ARRIVAL_TIME @ sid @ ''/arrives/'',
            req_headers = [(''accessToken'', JNull)],
            req_data = Some (JDict [(''stopId'', JStr sid),
                                    (''Text_EstimationsRequired_YN'', JStr ''Y'')])\<rparr> = Inr response \<longrightarrow>
      outcome (update_arrival_times send sid (self\<lparr>self_token := JNull\<rparr>)) =
        outcome (APIEMT_parse_arrivals response (self\<lparr>self_token := JNull\<rparr>)) \<and>
      state (update_arrival_times send sid (self\<lparr>self_token := JNull\<rparr>)) =
        state (APIEMT_parse_arrivals response (self\<lparr>self_token := JNull\<rparr>)) \<and>
      logged (update_arrival_times send sid (self\<lparr>self_token := JNull\<rparr>)) =
        logged (APIEMT_parse_arrivals response (self\<lparr>self_token := JNull\<rparr>)))"
  by (simp add: APIEMT_init_def update_stop_info_def update_arrival_times_def make_request_def
      Let_def split: sum.splits)

text \<open>The theorem at a new client, against the example server.\<close>

theorem null_token_is_sent_witness:
  "example_server \<lparr>req_method = ''GET'', req_url = BASE_URL @ ENDPOINT_STOP_INFO @ ''72'' @ ''/detail/'',
                   req_headers = [(''accessToken'', JNull)], req_data = None\<rparr> =
     Inr (error_response ''80'' ''Error, token not found in cache'') \<and>
   sent (update_stop_info example_server example_int ''72'' APIEMT_init) =
     [\<lparr>req_method = ''GET'', req_url = BASE_URL @ ENDPOINT_STOP_INFO @ ''72'' @ ''/detail/'',
       req_headers = [(''accessToken'', JNull)], req_data = None\<rparr>] \<and>
   logged (update_stop_info example_server example_int ''72'' APIEMT_init) =
     [Warning ''Bus stop disabled or does not exist'']"
proof -
  have i: "APIEMT_init\<lparr>self_token := JNull\<rparr> = APIEMT_init"
    by (simp add: APIEMT_init_def)
  from null_token_is_sent[of example_server example_int "''72''" APIEMT_init]
    example_server_null_token parse_stop_info_null_token
  show ?thesis by (simp add: i)
qed

section \<open>Arrivals\<close>

text \<open>
  Claim C5. After \<^verbatim>\<open>parse_arrivals\<close> has returned the dictionary (or
  \<^verbatim>\<open>APIEMT._parse_arrivals\<close> has returned on a code other than 80), the response had a list
  of arrival records; only \<open>lines\<close> changed, and its labels and their order did not; every
  line has as many \<open>arrivals\<close> as \<open>distance\<close>; and a line's two sequences are what the
  records of the response for that line give, in the order of the response, whatever the
  sequences held before.
\<close>

theorem arrivals_rebuilt_from_latest_response:
  assumes "outcome (parse_arrivals response before) = Inr (Returned_stop_info after) \<or>
           (py_get response ''code'' \<noteq> Inr (JStr ''80'') \<and>
            outcome (APIEMT_parse_arrivals response self) = Inr () \<and>
            before = self_stop_info self \<and>
            after = self_stop_info (state (APIEMT_parse_arrivals response self)))"
  shows "\<exists>records.
           arrive_records response = Inr records \<and>
           after = before\<lparr>lines := lines after\<rparr> \<and>
           map fst (lines after) = map fst (lines before) \<and>
           (\<forall>(k, li') \<in> set (lines after). length (arrivals li') = length (distance li')) \<and>
           (\<forall>k li. map_of (lines before) k = Some li \<longrightarrow>
              map_of (lines after) k =
                Some (li\<lparr>arrivals := map (\<lambda>r. Some (projr (arrival_time r)))
                                       (filter (\<lambda>r. py_get r ''line'' = Inr k) records),
                          distance := map (\<lambda>r. projr (py_get r ''DistanceBus''))
                                       (filter (\<lambda>r. py_get r ''line'' = Inr k) records)\<rparr>))"
proof -
  from assms have u: "update_arrivals response (lines before) = (None, lines after)"
    and a: "after = before\<lparr>lines := lines after\<rparr>"
  proof -
    show "update_arrivals response (lines before) = (None, lines after)"
      using assms parse_arrivals_success[of response before after]
        APIEMT_parse_arrivals_success[of response self] by auto
    show "after = before\<lparr>lines := lines after\<rparr>"
      using assms parse_arrivals_success[of response before after]
        APIEMT_parse_arrivals_success[of response self] by auto
  qed
  from update_arrivals_rebuilds[OF u] a show ?thesis by blast
qed

text \<open>
  The theorem on a snapshot that held three arrivals for line 27: after a response with
  two records for it, it holds those two, and line 53, which the response leaves out, none.
\<close>

theorem arrivals_rebuilt_from_latest_response_witness:
  "outcome (parse_arrivals (arrivals_response [arrive_record ''27'' 59 400, arrive_record ''27'' 125 900])
      (self_stop_info example_self)) =
   Inr (Returned_stop_info
     (state (parse_arrivals (arrivals_response [arrive_record ''27'' 59 400, arrive_record ''27'' 125 900])
        (self_stop_info example_self)))) \<and>
   map_option arrivals (map_of (lines (self_stop_info example_self)) (JStr ''27'')) =
     Some [Some 0, Some 2, Some 25] \<and>
   map_option arrivals (map_of (lines (state (parse_arrivals
       (arrivals_response [arrive_record ''27'' 59 400, arrive_record ''27'' 125 900])
       (self_stop_info example_self)))) (JStr ''27'')) = Some [Some 0, Some 2] \<and>
   map_option distance (map_of (lines (state (parse_arrivals
       (arrivals_response [arrive_record ''27'' 59 400, arrive_record ''27'' 125 900])
       (self_stop_info example_self)))) (JStr ''27'')) = Some [JInt 400, JInt 900] \<and>
   map_option arrivals (map_of (lines (state (parse_arrivals
       (arrivals_response [arrive_record ''27'' 59 400, arrive_record ''27'' 125 900])
       (self_stop_info example_self)))) (JStr ''53'')) = Some []"
  using arrivals_rebuilt_from_latest_response[OF disjI1[OF rebuilt_outcome]]
    rebuilt_outcome rebuilt_27 rebuilt_53 example_self_27
  by simp




section \<open>Error codes\<close>

text \<open>
  Claim C3 on \<^verbatim>\<open>parse_arrivals\<close> of \<^verbatim>\<open>parser.py\<close>: on a response of code 80 whose
  description is a string, the function returns the dictionary \<^verbatim>\<open>{"error": "Invalid token"}\<close>
  when the description contains \<^verbatim>\<open>token\<close> and \<^verbatim>\<open>None\<close> when it does not, and leaves the
  snapshot as it was in both cases.
\<close>

theorem parse_arrivals_code_80:
  assumes "py_get response ''code'' = Inr (JStr ''80'')"
    and "py_get response ''description'' = Inr (JStr description)"
  shows "parse_arrivals response stop =
           (if sublist ''token'' description
            then \<lparr>outcome = Inr (Returned_error ''Invalid token''), state = stop,
                  logged = [Warning ''Invalid or expired token'']\<rparr>
            else \<lparr>outcome = Inr Returned_None, state = stop,
                  logged = [Warning ''Bus Stop disabled or does not exist'']\<rparr>)"
  using assms by (simp add: parse_arrivals_def and_then_def py_in_def)

text \<open>The theorem at a description with the word and at one without.\<close>

theorem parse_arrivals_code_80_witness:
  "py_get (error_response ''80'' ''Error, token not found in cache'') ''code'' = Inr (JStr ''80'') \<and>
   py_get (error_response ''80'' ''Error, token not found in cache'') ''description'' =
     Inr (JStr ''Error, token not found in cache'') \<and>
   parse_arrivals (error_response ''80'' ''Error, token not found in cache'') example_stop =
     \<lparr>outcome = Inr (Returned_error ''Invalid token''), state = example_stop,
      logged = [Warning ''Invalid or expired token'']\<rparr> \<and>
   parse_arrivals (error_response ''80'' ''Parada no disponible'') example_stop =
     \<lparr>outcome = Inr Returned_None, state = example_stop,
      logged = [Warning ''Bus Stop disabled or does not exist'']\<rparr>"
  using parse_arrivals_code_80[OF py_get_error_response_code py_get_error_response_description,
      of "''Error, token not found in cache''" example_stop]
    parse_arrivals_code_80[OF py_get_error_response_code py_get_error_response_description,
      of "''Parada no disponible''" example_stop]
    token_in_description token_not_in_description
  by (simp add: py_get_error_response_code py_get_error_response_description)

text \<open>
  Claim C3 on \<^verbatim>\<open>APIEMT._parse_arrivals\<close>: the method does not look at the description. A
  response of code 80 that reports an unknown token has the outcome of one that reports a
  disabled stop: the warning that the stop is disabled, nothing returned, the client
  unchanged.
\<close>

theorem APIEMT_parse_arrivals_expired_token:
  "APIEMT_parse_arrivals (error_response ''80'' ''Error, token not found in cache'') example_self =
     \<lparr>outcome = Inr (), state = example_self,
      logged = [Warning ''Bus Stop disabled or does not exist'']\<rparr> \<and>
   APIEMT_parse_arrivals (error_response ''80'' ''Parada no disponible'') example_self =
     \<lparr>outcome = Inr (), state = example_self,
      logged = [Warning ''Bus Stop disabled or does not exist'']\<rparr>"
  by (simp add: APIEMT_parse_arrivals_def py_get_error_response_code)

text \<open>
  Claim C4 on \<^verbatim>\<open>parse_stop_info\<close> of \<^verbatim>\<open>parser.py\<close>: on a response of code 80 the function
  returns the dictionary \<^verbatim>\<open>{"error": "Invalid token"}\<close>, raises nothing and leaves the
  snapshot as it was.
\<close>

theorem parse_stop_info_code_80:
  assumes "py_get response ''code'' = Inr (JStr ''80'')"
  shows "parse_stop_info py_int response stop =
           \<lparr>outcome = Inr (Returned_error ''Invalid token''), state = stop,
            logged = [Warning ''Invalid or expired token'']\<rparr>"
  using assms by (simp add: parse_stop_info_def)

text \<open>
  The theorem at a response of code 80; a response of code 90 is answered with \<^verbatim>\<open>None\<close>,
  so the two outcomes differ.
\<close>

theorem parse_stop_info_code_80_witness:
  "py_get (error_response ''80'' ''Error, token not found in cache'') ''code'' = Inr (JStr ''80'') \<and>
   parse_stop_info example_int (error_response ''80'' ''Error, token not found in cache'') example_stop =
     \<lparr>outcome = Inr (Returned_error ''Invalid token''), state = example_stop,
      logged = [Warning ''Invalid or expired token'']\<rparr> \<and>
   parse_stop_info example_int (error_response ''90'' ''Parada no disponible'') example_stop =
     \<lparr>outcome = Inr Returned_None, state = example_stop,
      logged = [Warning ''Bus Stop disabled or does not exist'']\<rparr>"
  using parse_stop_info_code_80[OF py_get_error_response_code, of example_int _ example_stop]
    py_get_error_response_code[of "''80''"]
  by (simp add: parse_stop_info_def py_get_error_response_code)

text \<open>
  Claim C4 on \<^verbatim>\<open>APIEMT._parse_stop_info\<close>: the method treats every code other than 00
  alike. A response of code 80 has the outcome of a response of code 90: the warning that
  the stop is disabled, nothing returned, the client unchanged.
\<close>

theorem APIEMT_parse_stop_info_expired_token:
  "APIEMT_parse_stop_info example_int (error_response ''80'' ''Error, token not found in cache'')
     ''72'' example_self =
     \<lparr>outcome = Inr (), state = example_self,
      logged = [Warning ''Bus stop disabled or does not exist'']\<rparr> \<and>
   APIEMT_parse_stop_info example_int (error_response ''90'' ''Parada no disponible'')
     ''72'' example_self =
     \<lparr>outcome = Inr (), state = example_self,
      logged = [Warning ''Bus stop disabled or does not exist'']\<rparr>"
  by (simp add: APIEMT_parse_stop_info_def py_get_error_response_code)

text \<open>
  Claim C8 on \<^verbatim>\<open>APIEMT._extract_token\<close>: on a response of code 01 with no \<^verbatim>\<open>data\<close> key,
  with an empty \<^verbatim>\<open>data\<close> list, or whose first \<^verbatim>\<open>data\<close> entry is a dictionary without
  \<^verbatim>\<open>accessToken\<close>, the method raises \<^verbatim>\<open>ValueError("Unable to get token from the API")\<close>.
\<close>

theorem APIEMT_extract_token_malformed:
  assumes "py_get response ''code'' = Inr (JStr ''01'')"
    and "py_item response ''data'' = Inl KeyError \<or>
         py_item response ''data'' = Inr (JList []) \<or>
         (\<exists>entry rest. py_item response ''data'' = Inr (JList (JDict entry # rest)) \<and>
            map_of entry ''accessToken'' = None)"
  shows "APIEMT_extract_token response =
           \<lparr>outcome = Inl (ValueError ''Unable to get token from the API''), state = (),
            logged = []\<rparr>"
  using assms
  by (auto simp: APIEMT_extract_token_def and_then_def py_first_def py_item_def reraise_def
      split: json.splits option.splits)

text \<open>The theorem at a first entry without \<^verbatim>\<open>accessToken\<close>.\<close>

theorem APIEMT_extract_token_malformed_witness:
  "py_get malformed_login ''code'' = Inr (JStr ''01'') \<and>
   py_item malformed_login ''data'' = Inr (JList [JDict []]) \<and>
   APIEMT_extract_token malformed_login =
     \<lparr>outcome = Inl (ValueError ''Unable to get token from the API''), state = (),
      logged = []\<rparr>"
proof -
  have c: "py_get malformed_login ''code'' = Inr (JStr ''01'')"
    by (simp add: malformed_login_def py_get_def py_get_default_def)
  have d: "py_item malformed_login ''data'' = Inr (JList [JDict []])"
    by (simp add: malformed_login_def py_item_def)
  have "py_item malformed_login ''data'' = Inl KeyError \<or>
         py_item malformed_login ''data'' = Inr (JList []) \<or>
         (\<exists>entry rest. py_item malformed_login ''data'' = Inr (JList (JDict entry # rest)) \<and>
            map_of entry ''accessToken'' = None)"
    using d by simp
  from APIEMT_extract_token_malformed[OF c this] c d show ?thesis by simp
qed

text \<open>
  Claim C8 on \<^verbatim>\<open>parse_token\<close> of \<^verbatim>\<open>parser.py\<close>: on the same response the function returns
  \<^verbatim>\<open>None\<close> and logs nothing; \<^verbatim>\<open>None\<close> is also what it returns for refused credentials.
\<close>

theorem parse_token_missing_access_token:
  "parse_token malformed_login = \<lparr>outcome = Inr JNull, state = (), logged = []\<rparr> \<and>
   outcome (parse_token (error_response ''89'' ''Invalid user or password'')) = Inr JNull"
  by (simp add: parse_token_def malformed_login_def error_response_def py_get_def py_get_default_def
      py_item_def py_first_def and_then_def)

end
